theory Spec2Isabelle
  imports Main "HOL-Library.AList" "HOL-Library.List_Lexorder" "HOL-Library.Char_ord"
begin

section \<open>The gcloud function plugin of gloo\<close>

text \<open>
  A shallow embedding of the gcloud plugin (\<open>plugin.Init\<close>, \<open>plugin.ProcessUpstream\<close>,
  \<open>plugin.ProcessRoute\<close>, \<open>plugin.HttpFilters\<close>) and of the gcloud function discovery
  (\<open>DetectFunctionsOnce\<close>, \<open>convertGfuncsToFunctionSpec\<close>, the loop of \<open>DetectFunctions\<close>
  and the function it retries).

  Go strings are byte sequences, so they are \<open>string\<close> (a list of 8-bit characters).
  A Go method that mutates its receiver or its \<open>out\<close> argument returns the updated
  values. A nil pointer or nil interface that the source tests for, or dereferences
  without a test, is an \<open>option\<close>; a run-time panic is the outcome \<open>Panics\<close>.
  The payload pointer of a populated oneof variant and the \<open>out\<close> objects handed to the
  hooks are values. Logging is not modelled.
\<close>

subsection \<open>Errors and outcomes\<close>

record ResourceRef =
  ref_Name :: string
  ref_Namespace :: string

text \<open>An argument of a format string, kept beside the format instead of being printed.\<close>

datatype fmtarg = ArgString string | ArgRef ResourceRef

text \<open>
  \<open>Errorf\<close> is \<open>errors.Errorf\<close> and \<open>errors.New\<close> (format and arguments), \<open>Wrapf\<close> is
  \<open>errors.Wrapf\<close> and \<open>errors.Wrap\<close> (cause, format and arguments), \<open>MultiError\<close> is
  \<open>*multierror.Error\<close> with its \<open>Errors\<close> slice, \<open>NotFound\<close> is the error of a failed
  lookup in a resource list, \<open>ProviderError\<close> is an error of the Google client libraries.
\<close>

datatype error =
    Errorf string "fmtarg list"
  | Wrapf error string "fmtarg list"
  | MultiError "error list"
  | NotFound ResourceRef
  | ProviderError string

datatype 'a outcome = Returns 'a | Panics

text \<open>
  \<open>multierror.Append(err, e)\<close>: a nil \<open>err\<close> starts a new list, a multierror is
  extended, any other error becomes the first element; an appended multierror is
  flattened.
\<close>

fun multierror_Append :: "error option \<Rightarrow> error \<Rightarrow> error" where
  "multierror_Append None (MultiError es) = MultiError es"
| "multierror_Append None e = MultiError [e]"
| "multierror_Append (Some (MultiError ds)) (MultiError es) = MultiError (ds @ es)"
| "multierror_Append (Some (MultiError ds)) e = MultiError (ds @ [e])"
| "multierror_Append (Some d) (MultiError es) = MultiError (d # es)"
| "multierror_Append (Some d) e = MultiError [d, e]"

subsection \<open>\<open>utf8.Valid\<close>\<close>

text \<open>
  \<open>utf8.Valid\<close> of the Go standard library on the bytes of a string: ASCII bytes stand
  alone; a lead byte \<open>0xC2..0xF4\<close> fixes the length of the sequence and the range of
  its second byte (which excludes overlong forms, surrogates and code points above
  \<open>U+10FFFF\<close>); every further byte is a continuation byte \<open>0x80..0xBF\<close>.
\<close>

definition continuation :: "nat \<Rightarrow> bool" where
  "continuation b = (128 \<le> b \<and> b \<le> 191)"

fun utf8_Valid_bytes :: "nat list \<Rightarrow> bool" where
  "utf8_Valid_bytes [] = True"
| "utf8_Valid_bytes (b # bs) =
     (if b < 128 then utf8_Valid_bytes bs
      else if 194 \<le> b \<and> b \<le> 223 then
        (case bs of c1 # r \<Rightarrow> continuation c1 \<and> utf8_Valid_bytes r | _ \<Rightarrow> False)
      else if b = 224 then
        (case bs of c1 # c2 # r \<Rightarrow>
           160 \<le> c1 \<and> c1 \<le> 191 \<and> continuation c2 \<and> utf8_Valid_bytes r | _ \<Rightarrow> False)
      else if (225 \<le> b \<and> b \<le> 236) \<or> b = 238 \<or> b = 239 then
        (case bs of c1 # c2 # r \<Rightarrow>
           continuation c1 \<and> continuation c2 \<and> utf8_Valid_bytes r | _ \<Rightarrow> False)
      else if b = 237 then
        (case bs of c1 # c2 # r \<Rightarrow>
           128 \<le> c1 \<and> c1 \<le> 159 \<and> continuation c2 \<and> utf8_Valid_bytes r | _ \<Rightarrow> False)
      else if b = 240 then
        (case bs of c1 # c2 # c3 # r \<Rightarrow>
           144 \<le> c1 \<and> c1 \<le> 191 \<and> continuation c2 \<and> continuation c3 \<and> utf8_Valid_bytes r
         | _ \<Rightarrow> False)
      else if 241 \<le> b \<and> b \<le> 243 then
        (case bs of c1 # c2 # c3 # r \<Rightarrow>
           continuation c1 \<and> continuation c2 \<and> continuation c3 \<and> utf8_Valid_bytes r
         | _ \<Rightarrow> False)
      else if b = 244 then
        (case bs of c1 # c2 # c3 # r \<Rightarrow>
           128 \<le> c1 \<and> c1 \<le> 143 \<and> continuation c2 \<and> continuation c3 \<and> utf8_Valid_bytes r
         | _ \<Rightarrow> False)
      else False)"

definition utf8_Valid :: "string \<Rightarrow> bool" where
  "utf8_Valid s = utf8_Valid_bytes (map of_char s)"

subsection \<open>Resources\<close>

record Metadata =
  meta_Name :: string
  meta_Namespace :: string

text \<open>\<open>Metadata.Ref()\<close> and \<open>ResourceRef.Strings()\<close> of solo-kit.\<close>

definition Ref :: "Metadata \<Rightarrow> ResourceRef" where
  "Ref m = \<lparr>ref_Name = meta_Name m, ref_Namespace = meta_Namespace m\<rparr>"

definition Strings :: "ResourceRef \<Rightarrow> string \<times> string" where
  "Strings r = (ref_Namespace r, ref_Name r)"

record GfuncFunctionSpec =
  LogicalName :: string
  GfuncFunctionName :: string
  Url :: string

text \<open>\<open>gcloud.UpstreamSpec\<close>.\<close>

record GcloudUpstreamSpec =
  Region :: string
  ProjectId :: string
  SecretRef :: ResourceRef
  GfuncFunctions :: "GfuncFunctionSpec list"

record KubeUpstreamSpec =
  ServiceName :: string
  ServiceNamespace :: string
  ServicePort :: nat

text \<open>
  The oneof \<open>UpstreamSpec.UpstreamType\<close>: the gcloud and kube variants that the sources
  name, and any other variant under its name.
\<close>

datatype UpstreamType =
    UpstreamSpec_Gcloud GcloudUpstreamSpec
  | UpstreamSpec_Kube KubeUpstreamSpec
  | UpstreamSpec_Other string

record UpstreamSpec =
  UpstreamType :: "UpstreamType option"

record Upstream =
  us_Metadata :: Metadata
  us_UpstreamSpec :: "UpstreamSpec option"

record GcloudSecret =
  AccessKey :: string
  JsonKey :: string

datatype SecretKind = Secret_Gcloud GcloudSecret | Secret_Other string

record Secret =
  sec_Metadata :: Metadata
  Kind :: "SecretKind option"

record ApiSnapshot =
  Secrets :: "Secret list"

record Params =
  Snapshot :: ApiSnapshot

text \<open>
  Modelled from the spec: \<open>SecretList.Find\<close> is generated code that is not among the
  sources. The spec's Secret Resolver looks the Secret up by its Ref (namespace and
  name) in the Snapshot and fails with \<open>NotFound\<close> if it is absent.
\<close>

fun Find :: "Secret list \<Rightarrow> string \<times> string \<Rightarrow> error + Secret" where
  "Find [] (namespace, name) = Inl (NotFound \<lparr>ref_Name = name, ref_Namespace = namespace\<rparr>)"
| "Find (s # list) (namespace, name) =
     (if meta_Name (sec_Metadata s) = name \<and> meta_Namespace (sec_Metadata s) = namespace
      then Inr s else Find list (namespace, name))"

subsection \<open>The Envoy cluster\<close>

datatype DiscoveryType =
  Cluster_STATIC | Cluster_STRICT_DNS | Cluster_LOGICAL_DNS | Cluster_EDS | Cluster_ORIGINAL_DST

datatype DnsLookupFamily = Cluster_AUTO | Cluster_V4_ONLY | Cluster_V6_ONLY

record UpstreamTlsContext =
  Sni :: string

record GfuncProtocolExtension =
  pe_Host :: string
  pe_Region :: string
  pe_AccessKey :: string
  pe_JsonKey :: string

record Cluster =
  ClusterDiscoveryType :: "DiscoveryType option"
  DnsLookupFamily :: DnsLookupFamily
  LoadAssignment :: "(string \<times> nat) option"
  TlsContext :: "UpstreamTlsContext option"
  ExtensionProtocolOptions :: "(string \<times> GfuncProtocolExtension) list"

text \<open>
  Modelled from the spec: the helpers of package \<open>pluginutils\<close> are not among the
  sources. The spec's cluster patch carries the endpoint and the protocol-extension
  options: \<open>EnvoySingleEndpointLoadAssignment\<close> stores the single endpoint (host and
  port), \<open>SetExtenstionProtocolOptions\<close> stores the options under the filter's name.
\<close>

definition EnvoySingleEndpointLoadAssignment :: "Cluster \<Rightarrow> string \<Rightarrow> nat \<Rightarrow> Cluster" where
  "EnvoySingleEndpointLoadAssignment out address port = out\<lparr>LoadAssignment := Some (address, port)\<rparr>"

definition SetExtenstionProtocolOptions ::
  "Cluster \<Rightarrow> string \<Rightarrow> GfuncProtocolExtension \<Rightarrow> error option \<times> Cluster" where
  "SetExtenstionProtocolOptions out name lpe =
     (None, out\<lparr>ExtensionProtocolOptions := AList.update name lpe (ExtensionProtocolOptions out)\<rparr>)"

subsection \<open>The plugin\<close>

definition filterName :: string where
  "filterName = ''io.solo.gcloud_gfunc''"

text \<open>The stages of package \<open>plugins\<close>, in their order.\<close>

datatype Stage = FaultFilter | PreInAuth | InAuth | PostInAuth | PreOutAuth | OutAuth

definition pluginStage :: Stage where
  "pluginStage = OutAuth"

definition getGfuncHostname :: "GcloudUpstreamSpec \<Rightarrow> string" where
  "getGfuncHostname s = Region s @ ''-'' @ ProjectId s @ ''.cloudfunctions.net''"

text \<open>
  The plugin: \<open>recordedUpstreams\<close> is a Go map (\<open>None\<close> is the nil map of a plugin that
  \<open>NewPlugin\<close> has just built), kept as an association list with one entry per key;
  \<open>ctx\<close> is the identity of the context; \<open>transformsAdded\<close> is the flag the plugin's
  pointer refers to.
\<close>

record plugin =
  recordedUpstreams :: "(ResourceRef \<times> GcloudUpstreamSpec) list option"
  ctx :: "nat option"
  transformsAdded :: bool

definition NewPlugin :: "bool \<Rightarrow> plugin" where
  "NewPlugin flag = \<lparr>recordedUpstreams = None, ctx = None, transformsAdded = flag\<rparr>"

record InitParams =
  ip_Ctx :: nat

definition Init :: "plugin \<Rightarrow> InitParams \<Rightarrow> error option \<times> plugin" where
  "Init p params = (None, p\<lparr>recordedUpstreams := Some [], ctx := Some (ip_Ctx params)\<rparr>)"

text \<open>
  \<open>ProcessUpstream\<close> returns its error together with the plugin and the cluster as the
  call leaves them: both are written before the secret is looked up.
\<close>

definition ProcessUpstream ::
  "plugin \<Rightarrow> Params \<Rightarrow> Upstream \<Rightarrow> Cluster \<Rightarrow> (error option \<times> plugin \<times> Cluster) outcome" where
  "ProcessUpstream p params inp out =
     (case us_UpstreamSpec inp of
        None \<Rightarrow> Panics
      | Some spec \<Rightarrow>
          (case UpstreamType spec of
             Some (UpstreamSpec_Gcloud gcloud) \<Rightarrow>
               (case recordedUpstreams p of
                  None \<Rightarrow> Panics
                | Some m \<Rightarrow>
                    (let p1 = p\<lparr>recordedUpstreams :=
                                 Some (AList.update (Ref (us_Metadata inp)) gcloud m)\<rparr>;
                         gfuncHostname = getGfuncHostname gcloud;
                         out1 = out\<lparr>ClusterDiscoveryType := Some Cluster_LOGICAL_DNS\<rparr>;
                         out2 = out1\<lparr>DnsLookupFamily := Cluster_V4_ONLY\<rparr>;
                         out3 = EnvoySingleEndpointLoadAssignment out2 gfuncHostname 443;
                         out4 = out3\<lparr>TlsContext := Some \<lparr>Sni = gfuncHostname\<rparr>\<rparr>
                     in case Find (Secrets (Snapshot params)) (Strings (SecretRef gcloud)) of
                          Inl err \<Rightarrow> Returns (Some (Wrapf err ''retrieving gcloud secret'' []), p1, out4)
                        | Inr secrets \<Rightarrow>
                            (case Kind secrets of
                               Some (Secret_Gcloud gcloudSecrets) \<Rightarrow>
                                 (let accessKey = AccessKey gcloudSecrets;
                                      jsonKey = JsonKey gcloudSecrets;
                                      secretErrs1 =
                                        (if accessKey = [] \<or> \<not> utf8_Valid accessKey
                                         then Some (multierror_Append None
                                                (Errorf ''access_key is not a valid string'' []))
                                         else None);
                                      secretErrs2 =
                                        (if jsonKey = [] \<or> \<not> utf8_Valid jsonKey
                                         then Some (multierror_Append secretErrs1
                                                (Errorf ''json_key is not a valid string'' []))
                                         else secretErrs1)
                                  in case secretErrs2 of
                                       Some e \<Rightarrow> Returns (Some e, p1, out4)
                                     | None \<Rightarrow>
                                         (let lpe = \<lparr>pe_Host = gfuncHostname,
                                                     pe_Region = Region gcloud,
                                                     pe_AccessKey = accessKey,
                                                     pe_JsonKey = jsonKey\<rparr>
                                          in case SetExtenstionProtocolOptions out4 filterName lpe of
                                               (Some err, out5) \<Rightarrow>
                                                 Returns (Some (Wrapf err
                                                   ''converting gcloud protocol options to struct'' []),
                                                   p1, out5)
                                             | (None, out5) \<Rightarrow> Returns (None, p1, out5)))
                             | _ \<Rightarrow>
                                 Returns (Some (Errorf ''secret %v is not an GCLOUD secret''
                                                  [ArgRef (Ref (sec_Metadata secrets))]), p1, out4))))
           | _ \<Rightarrow> Returns (None, p, out)))"

record StagedHttpFilter =
  hf_Name :: string
  hf_Stage :: Stage

definition NewStagedFilter :: "string \<Rightarrow> Stage \<Rightarrow> StagedHttpFilter" where
  "NewStagedFilter name stage = \<lparr>hf_Name = name, hf_Stage = stage\<rparr>"

record HttpListener =
  VirtualHosts :: "string list"

text \<open>\<open>len\<close> of a Go map: a nil map has length 0.\<close>

definition len_map :: "('k \<times> 'v) list option \<Rightarrow> nat" where
  "len_map m = (case m of None \<Rightarrow> 0 | Some al \<Rightarrow> length al)"

definition HttpFilters ::
  "plugin \<Rightarrow> Params \<Rightarrow> HttpListener \<Rightarrow> StagedHttpFilter list \<times> error option" where
  "HttpFilters p params listener =
     (if len_map (recordedUpstreams p) = 0 then ([], None)
      else ([NewStagedFilter filterName pluginStage], None))"

subsection \<open>Routes\<close>

record GcloudDestinationSpec =
  ds_LogicalName :: string
  ResponseTransformation :: bool

datatype DestinationType = DestinationSpec_Gcloud GcloudDestinationSpec | DestinationSpec_Other string

record DestinationSpec =
  DestinationType :: "DestinationType option"

record Destination =
  dest_Upstream :: "ResourceRef option"
  dest_DestinationSpec :: "DestinationSpec option"

record Route =
  Matcher :: string
  Destination :: Destination

record GfuncPerRoute =
  pr_Name :: string
  pr_Url :: string

record TransformationTemplate =
  Body :: string
  Headers :: "(string \<times> string) list"

text \<open>The messages the plugin attaches to a route: its own and a response transformation.\<close>

datatype Message = Msg_GfuncPerRoute GfuncPerRoute | Msg_RouteTransformations TransformationTemplate

text \<open>The Envoy route.\<close>

record EnvoyRoute =
  PerFilterConfig :: "(string \<times> Message) list"

text \<open>
  Modelled from the spec: \<open>pluginutils.MarkPerFilterConfig\<close> is not among the sources.
  In the spec a Route has one Destination, and \<open>ProcessRoute\<close> returns the per-filter
  metadata to attach to the wire route, a no-op, or an error: the callback runs on the
  Route's Destination; its error is returned and nothing is attached, its nil message
  attaches nothing, any other message is attached under the filter's name. The callback
  may write the plugin it closes over, so it takes and returns that state.
\<close>

definition MarkPerFilterConfig ::
  "Route \<Rightarrow> EnvoyRoute \<Rightarrow> string \<Rightarrow> (Destination \<Rightarrow> 's \<Rightarrow> (error + Message option) \<times> 's) \<Rightarrow> 's
     \<Rightarrow> (error option \<times> EnvoyRoute) \<times> 's" where
  "MarkPerFilterConfig inp out name perFilterConfig st =
     (case perFilterConfig (Destination inp) st of
        (Inl err, st1) \<Rightarrow> ((Some err, out), st1)
      | (Inr None, st1) \<Rightarrow> ((None, out), st1)
      | (Inr (Some config), st1) \<Rightarrow>
          ((None, out\<lparr>PerFilterConfig := AList.update name config (PerFilterConfig out)\<rparr>), st1))"

text \<open>Reading a Go map: a nil map has no entries.\<close>

definition map_lookup :: "('k \<times> 'v) list option \<Rightarrow> 'k \<Rightarrow> 'v option" where
  "map_lookup m k = (case m of None \<Rightarrow> None | Some al \<Rightarrow> map_of al k)"

text \<open>The loop of \<open>ProcessRoute\<close> over the functions of the upstream: the first match wins.\<close>

fun findFunction :: "GfuncFunctionSpec list \<Rightarrow> string \<Rightarrow> error + Message option" where
  "findFunction [] logicalName = Inl (Errorf ''unknown function %v'' [ArgString logicalName])"
| "findFunction (gfuncFunc # rest) logicalName =
     (if LogicalName gfuncFunc = logicalName
      then Inr (Some (Msg_GfuncPerRoute
             \<lparr>pr_Name = GfuncFunctionName gfuncFunc, pr_Url = Url gfuncFunc\<rparr>))
      else findFunction rest logicalName)"

text \<open>The first callback of \<open>ProcessRoute\<close>.\<close>

definition gfuncPerFilterConfig :: "Destination \<Rightarrow> plugin \<Rightarrow> (error + Message option) \<times> plugin" where
  "gfuncPerFilterConfig spec p =
     (case (dest_DestinationSpec spec, dest_Upstream spec) of
        (Some dspec, Some ref) \<Rightarrow>
          (case DestinationType dspec of
             Some (DestinationSpec_Gcloud gcloudDestinationSpec) \<Rightarrow>
               (case map_lookup (recordedUpstreams p) ref of
                  None \<Rightarrow> (Inl (Errorf ''%v is not an GCLOUD upstream'' [ArgRef ref]), p)
                | Some gfuncSpec \<Rightarrow>
                    (findFunction (GfuncFunctions gfuncSpec)
                       (ds_LogicalName gcloudDestinationSpec), p))
           | _ \<Rightarrow> (Inr None, p))
      | _ \<Rightarrow> (Inr None, p))"

definition responseTemplate :: TransformationTemplate where
  "responseTemplate = \<lparr>Body = ''{{body}}'', Headers = [(''content-type'', ''text/html'')]\<rparr>"

text \<open>The second callback of \<open>ProcessRoute\<close>; it sets the flag \<open>transformsAdded\<close>.\<close>

definition transformPerFilterConfig :: "Destination \<Rightarrow> plugin \<Rightarrow> (error + Message option) \<times> plugin" where
  "transformPerFilterConfig spec p =
     (case dest_DestinationSpec spec of
        None \<Rightarrow> (Inr None, p)
      | Some dspec \<Rightarrow>
          (case DestinationType dspec of
             Some (DestinationSpec_Gcloud gcloudDestinationSpec) \<Rightarrow>
               (if \<not> ResponseTransformation gcloudDestinationSpec then (Inr None, p)
                else (Inr (Some (Msg_RouteTransformations responseTemplate)),
                      p\<lparr>transformsAdded := True\<rparr>))
           | _ \<Rightarrow> (Inr None, p)))"

text \<open>
  \<open>ProcessRoute\<close>. The name of the transformation filter is the constant
  \<open>transformation.FilterName\<close> of a package that is not among the sources, so it is the
  parameter \<open>transformationFilterName\<close>.
\<close>

definition ProcessRoute ::
  "string \<Rightarrow> plugin \<Rightarrow> Params \<Rightarrow> Route \<Rightarrow> EnvoyRoute \<Rightarrow> error option \<times> plugin \<times> EnvoyRoute" where
  "ProcessRoute transformationFilterName p params inp out =
     (case MarkPerFilterConfig inp out filterName gfuncPerFilterConfig p of
        ((Some err, out1), p1) \<Rightarrow> (Some err, p1, out1)
      | ((None, out1), p1) \<Rightarrow>
          (case MarkPerFilterConfig inp out1 transformationFilterName transformPerFilterConfig p1 of
             ((err, out2), p2) \<Rightarrow> (err, p2, out2)))"

subsection \<open>Sequences of hook calls\<close>

text \<open>
  One call of a hook with its arguments, and what the call hands back. A sequence of
  calls runs on one plugin, each call on the state the previous one left; a panic ends
  the sequence.
\<close>

datatype call =
    CallProcessUpstream Params Upstream Cluster
  | CallProcessRoute Params Route EnvoyRoute
  | CallHttpFilters Params HttpListener

datatype hookresult =
    ClusterPatch "error option" Cluster
  | RoutePatch "error option" EnvoyRoute
  | StagedFilters "StagedHttpFilter list" "error option"
  | Panicked

fun runHooks :: "string \<Rightarrow> plugin \<Rightarrow> call list \<Rightarrow> hookresult list \<times> plugin" where
  "runHooks tfn p [] = ([], p)"
| "runHooks tfn p (CallProcessUpstream params inp out # cs) =
     (case ProcessUpstream p params inp out of
        Panics \<Rightarrow> ([Panicked], p)
      | Returns (err, p1, out1) \<Rightarrow>
          (case runHooks tfn p1 cs of (os, pn) \<Rightarrow> (ClusterPatch err out1 # os, pn)))"
| "runHooks tfn p (CallProcessRoute params inp out # cs) =
     (case ProcessRoute tfn p params inp out of
        (err, p1, out1) \<Rightarrow>
          (case runHooks tfn p1 cs of (os, pn) \<Rightarrow> (RoutePatch err out1 # os, pn)))"
| "runHooks tfn p (CallHttpFilters params listener # cs) =
     (case HttpFilters p params listener of
        (filters, err) \<Rightarrow>
          (case runHooks tfn p cs of (os, pn) \<Rightarrow> (StagedFilters filters err # os, pn)))"

text \<open>A pass: \<open>Init\<close>, then the calls.\<close>

definition runPass :: "string \<Rightarrow> plugin \<Rightarrow> InitParams \<Rightarrow> call list \<Rightarrow> hookresult list \<times> plugin" where
  "runPass tfn p ip cs = (case Init p ip of (err, p0) \<Rightarrow> runHooks tfn p0 cs)"

subsection \<open>Function discovery\<close>

definition gcloudAccessKey :: string where
  "gcloudAccessKey = ''access_key''"

definition gcloudJsonKey :: string where
  "gcloudJsonKey = ''json_key''"

definition statusReady :: string where
  "statusReady = ''READY''"

definition statusActive :: string where
  "statusActive = ''ACTIVE''"

text \<open>The fields of the provider's \<open>cloudfunctions.CloudFunction\<close> that the code reads.\<close>

record HTTPSTrigger =
  trig_Url :: string

record CloudFunction =
  cf_Name :: string
  cf_Status :: string
  HttpsTrigger :: "HTTPSTrigger option"

record ListFunctionsResponse =
  Functions :: "CloudFunction list"

text \<open>
  The Google client libraries are the environment of the discovery:
  \<open>JWTConfigFromJSON\<close> accepts or rejects the JSON key, \<open>cloudfunctions_New\<close> builds the
  service or fails, and \<open>Pages\<close> hands the pages of the listing under a parent to the
  callback one after the other and may end with an error after the pages it delivered.
\<close>

record GoogleApi =
  JWTConfigFromJSON :: "string \<Rightarrow> error option"
  cloudfunctions_New :: "error option"
  Pages :: "string \<Rightarrow> ListFunctionsResponse list \<times> error option"

record GcloudGfuncFunctionDiscovery =
  timetowait :: nat
  upstream :: Upstream

definition IsFunctional :: "GcloudGfuncFunctionDiscovery \<Rightarrow> bool outcome" where
  "IsFunctional f =
     (case us_UpstreamSpec (upstream f) of
        None \<Rightarrow> Panics
      | Some spec \<Rightarrow>
          (case UpstreamType spec of
             Some (UpstreamSpec_Gcloud gcloud) \<Rightarrow> Returns True
           | _ \<Rightarrow> Returns False))"

definition newGoogleClient :: "GoogleApi \<Rightarrow> string \<Rightarrow> error option" where
  "newGoogleClient api jsonKey =
     (case JWTConfigFromJSON api jsonKey of
        Some err \<Rightarrow>
          Some (Wrapf err ''creating jwt config from service account JSON key file '' [])
      | None \<Rightarrow> None)"

text \<open>The callback of \<open>Pages\<close> on one page: the loop that appends to \<open>results\<close>.\<close>

fun appendReady :: "CloudFunction list \<Rightarrow> CloudFunction list \<Rightarrow> CloudFunction list" where
  "appendReady results [] = results"
| "appendReady results (result # rest) =
     appendReady
       (if (cf_Status result = statusReady \<or> cf_Status result = statusActive)
           \<and> HttpsTrigger result \<noteq> None
        then results @ [result] else results)
       rest"

fun listPages :: "CloudFunction list \<Rightarrow> ListFunctionsResponse list \<Rightarrow> CloudFunction list" where
  "listPages results [] = results"
| "listPages results (response # rest) = listPages (appendReady results (Functions response)) rest"

text \<open>
  \<open>convertGfuncsToFunctionSpec\<close> sets the name and the URL of each function; the
  logical name keeps the zero value, the empty string. A function without an HTTPS
  trigger is a nil dereference.
\<close>

fun convertLoop :: "GfuncFunctionSpec list \<Rightarrow> CloudFunction list \<Rightarrow> GfuncFunctionSpec list outcome" where
  "convertLoop newfunctions [] = Returns newfunctions"
| "convertLoop newfunctions (gFunc # rest) =
     (case HttpsTrigger gFunc of
        None \<Rightarrow> Panics
      | Some trigger \<Rightarrow>
          convertLoop
            (newfunctions @ [\<lparr>LogicalName = [], GfuncFunctionName = cf_Name gFunc,
                              Url = trig_Url trigger\<rparr>])
            rest)"

definition convertGfuncsToFunctionSpec :: "CloudFunction list \<Rightarrow> GfuncFunctionSpec list outcome" where
  "convertGfuncsToFunctionSpec results = convertLoop [] results"

definition DetectFunctionsOnce ::
  "GoogleApi \<Rightarrow> GcloudGfuncFunctionDiscovery \<Rightarrow> Secret list \<Rightarrow> (error + GfuncFunctionSpec list) outcome" where
  "DetectFunctionsOnce api f secrets =
     (case us_UpstreamSpec (upstream f) of
        None \<Rightarrow> Panics
      | Some spec \<Rightarrow>
          (case UpstreamType spec of
             Some (UpstreamSpec_Gcloud gfuncSpec) \<Rightarrow>
               (case Find secrets (ref_Namespace (SecretRef gfuncSpec), ref_Name (SecretRef gfuncSpec)) of
                  Inl err \<Rightarrow>
                    Returns (Inl (Wrapf err ''secrets not found for secret ref %v''
                                    [ArgRef (SecretRef gfuncSpec)]))
                | Inr gcloudSecrets \<Rightarrow>
                    (case Kind gcloudSecrets of
                       Some (Secret_Gcloud gcloudSecret) \<Rightarrow>
                         (let accessKey = AccessKey gcloudSecret;
                              jsonKey = JsonKey gcloudSecret
                          in if accessKey \<noteq> [] \<and> \<not> utf8_Valid accessKey
                             then Returns (Inl (Errorf ''%s not a valid string'' [ArgString gcloudAccessKey]))
                             else if jsonKey \<noteq> [] \<and> \<not> utf8_Valid jsonKey
                             then Returns (Inl (Errorf ''%s not a valid string'' [ArgString gcloudJsonKey]))
                             else
                               (case newGoogleClient api jsonKey of
                                  Some err \<Rightarrow> Returns (Inl (Wrapf err ''creating google oauth2 client'' []))
                                | None \<Rightarrow>
                                    (case cloudfunctions_New api of
                                       Some err \<Rightarrow> Returns (Inl (Wrapf err ''creating gcf client'' []))
                                     | None \<Rightarrow>
                                         (let locationID = ''-'';
                                              parent = ''projects/'' @ ProjectId gfuncSpec
                                                         @ ''/locations/'' @ locationID
                                          in case Pages api parent of
                                               (responses, Some err) \<Rightarrow>
                                                 Returns (Inl (Wrapf err
                                                   ''unable to get list of GCF functions'' []))
                                             | (responses, None) \<Rightarrow>
                                                 (case convertGfuncsToFunctionSpec
                                                         (listPages [] responses) of
                                                    Panics \<Rightarrow> Panics
                                                  | Returns newfunctions \<Rightarrow>
                                                      Returns (Inr newfunctions))))))
                     | _ \<Rightarrow> Returns (Inl (Errorf ''provided secret is not an gcloud secret'' []))))
           | _ \<Rightarrow> Returns (Inl (Errorf ''not a gfunc upstream spec'' []))))"

text \<open>
  The insertion sort of the Go standard library (\<open>insertionSort_func\<close>): each element
  moves towards the front while it is less than its left neighbour. \<open>insertLeft\<close> works
  on the sorted prefix in reverse.
\<close>

fun insertLeft :: "('a \<Rightarrow> 'a \<Rightarrow> bool) \<Rightarrow> 'a \<Rightarrow> 'a list \<Rightarrow> 'a list" where
  "insertLeft lt x [] = [x]"
| "insertLeft lt x (y # ys) = (if lt x y then y # insertLeft lt x ys else x # y # ys)"

definition insertionSort :: "('a \<Rightarrow> 'a \<Rightarrow> bool) \<Rightarrow> 'a list \<Rightarrow> 'a list" where
  "insertionSort lt xs = rev (foldl (\<lambda>acc x. insertLeft lt x acc) [] xs)"

text \<open>
  \<open>sort.Slice\<close> of the Go standard library orders a slice by its \<open>less\<close> function (here
  \<open>lt\<close>) and is not stable. On a slice of at most six elements every release runs the
  insertion sort alone. On a longer slice the steps depend on the release (a shell pass
  with gap 6 up to twelve elements and quicksort above in the releases of 2019,
  pattern-defeating quicksort later) and may reorder elements that compare equal: what
  the library returns there is the parameter \<open>longer\<close>.
\<close>

definition sort_Slice ::
  "(('a \<Rightarrow> 'a \<Rightarrow> bool) \<Rightarrow> 'a list \<Rightarrow> 'a list) \<Rightarrow> ('a \<Rightarrow> 'a \<Rightarrow> bool) \<Rightarrow> 'a list \<Rightarrow> 'a list" where
  "sort_Slice longer lt xs = (if length xs \<le> 6 then insertionSort lt xs else longer lt xs)"

definition lessLogicalName :: "GfuncFunctionSpec \<Rightarrow> GfuncFunctionSpec \<Rightarrow> bool" where
  "lessLogicalName a b = (LogicalName a < LogicalName b)"

text \<open>
  The mutator that \<open>DetectFunctions\<close> hands to \<open>updatecb\<close>: it fails without a change,
  or replaces the function list of the live upstream.
\<close>

definition updateFunctions :: "GfuncFunctionSpec list \<Rightarrow> Upstream option \<Rightarrow> error + Upstream" where
  "updateFunctions newfunctions out =
     (case out of
        None \<Rightarrow> Inl (Errorf ''nil upstream'' [])
      | Some u \<Rightarrow>
          (case us_UpstreamSpec u of
             None \<Rightarrow> Inl (Errorf ''nil upstream spec'' [])
           | Some spec \<Rightarrow>
               (case UpstreamType spec of
                  None \<Rightarrow> Inl (Errorf ''nil upstream type'' [])
                | Some (UpstreamSpec_Gcloud gcloud) \<Rightarrow>
                    Inr (u\<lparr>us_UpstreamSpec := Some (spec\<lparr>UpstreamType :=
                           Some (UpstreamSpec_Gcloud (gcloud\<lparr>GfuncFunctions := newfunctions\<rparr>))\<rparr>)\<rparr>)
                | Some other \<Rightarrow> Inl (Errorf ''not gcloud upstream'' []))))"

text \<open>
  The function that \<open>DetectFunctions\<close> hands to \<open>Backoff\<close>: one detection, the sort, the
  update. \<open>updatecb\<close> is the caller's; it runs the mutator on the storage \<open>st\<close>.
  \<open>longer\<close> is the sort of the library on long slices.
\<close>

definition detectAndUpdate ::
  "((GfuncFunctionSpec \<Rightarrow> GfuncFunctionSpec \<Rightarrow> bool) \<Rightarrow> GfuncFunctionSpec list \<Rightarrow> GfuncFunctionSpec list)
     \<Rightarrow> GoogleApi \<Rightarrow> GcloudGfuncFunctionDiscovery \<Rightarrow> Secret list
     \<Rightarrow> ((Upstream option \<Rightarrow> error + Upstream) \<Rightarrow> 'st \<Rightarrow> error option \<times> 'st) \<Rightarrow> 'st
     \<Rightarrow> (error option \<times> 'st) outcome" where
  "detectAndUpdate longer api f secrets updatecb st =
     (case DetectFunctionsOnce api f secrets of
        Panics \<Rightarrow> Panics
      | Returns (Inl err) \<Rightarrow> Returns (Some err, st)
      | Returns (Inr newfunctions) \<Rightarrow>
          (case updatecb (updateFunctions (sort_Slice longer lessLogicalName newfunctions)) st of
             (Some err, st1) \<Rightarrow> Returns (Some (Wrapf err ''unable to update upstream'' []), st1)
           | (None, st1) \<Rightarrow> Returns (None, st1)))"

text \<open>
  Modelled from the spec: the mutation callback of package \<open>fds\<close> is not among the
  sources. In the spec \<open>apply(ref, mutatorFn)\<close> gives the mutator the live Backend; the
  mutator's error aborts the mutation, otherwise the mutated Backend is stored.
\<close>

definition applyMutator ::
  "(Upstream option \<Rightarrow> error + Upstream) \<Rightarrow> Upstream option \<Rightarrow> error option \<times> Upstream option" where
  "applyMutator mutator live =
     (case mutator live of
        Inl err \<Rightarrow> (Some err, live)
      | Inr u \<Rightarrow> (None, Some u))"

subsection \<open>Example resources\<close>

text \<open>A gcloud upstream with two functions, a kube upstream, a secret, a route.\<close>

definition exRef :: ResourceRef where
  "exRef = \<lparr>ref_Name = ''gf'', ref_Namespace = ''ns''\<rparr>"

definition exFunctions :: "GfuncFunctionSpec list" where
  "exFunctions =
     [\<lparr>LogicalName = ''f1'', GfuncFunctionName = ''projects/proj/locations/us-east1/functions/f1'',
       Url = ''https://us-east1-proj.cloudfunctions.net/f1''\<rparr>,
      \<lparr>LogicalName = ''f3'', GfuncFunctionName = ''projects/proj/locations/us-east1/functions/f3'',
       Url = ''https://us-east1-proj.cloudfunctions.net/f3''\<rparr>]"

definition exGcloud :: GcloudUpstreamSpec where
  "exGcloud = \<lparr>Region = ''us-east1'', ProjectId = ''proj'',
               SecretRef = \<lparr>ref_Name = ''creds'', ref_Namespace = ''ns''\<rparr>,
               GfuncFunctions = exFunctions\<rparr>"

definition exUpstream :: Upstream where
  "exUpstream = \<lparr>us_Metadata = \<lparr>meta_Name = ''gf'', meta_Namespace = ''ns''\<rparr>,
                 us_UpstreamSpec = Some \<lparr>UpstreamType = Some (UpstreamSpec_Gcloud exGcloud)\<rparr>\<rparr>"

definition exKubeUpstream :: Upstream where
  "exKubeUpstream = \<lparr>us_Metadata = \<lparr>meta_Name = ''up'', meta_Namespace = ''ns''\<rparr>,
      us_UpstreamSpec = Some \<lparr>UpstreamType = Some (UpstreamSpec_Kube
        \<lparr>ServiceName = ''svc'', ServiceNamespace = ''ns'', ServicePort = 80\<rparr>)\<rparr>\<rparr>"

definition exSecret :: "string \<Rightarrow> string \<Rightarrow> Secret" where
  "exSecret ak jk = \<lparr>sec_Metadata = \<lparr>meta_Name = ''creds'', meta_Namespace = ''ns''\<rparr>,
                     Kind = Some (Secret_Gcloud \<lparr>AccessKey = ak, JsonKey = jk\<rparr>)\<rparr>"

definition exParams :: "Secret list \<Rightarrow> Params" where
  "exParams secrets = \<lparr>Snapshot = \<lparr>Secrets = secrets\<rparr>\<rparr>"

definition exCluster :: Cluster where
  "exCluster = \<lparr>ClusterDiscoveryType = None, DnsLookupFamily = Cluster_AUTO, LoadAssignment = None,
                TlsContext = None, ExtensionProtocolOptions = []\<rparr>"

definition exPlugin :: plugin where
  "exPlugin = snd (Init (NewPlugin False) \<lparr>ip_Ctx = 0\<rparr>)"

definition exRoute :: "string \<Rightarrow> Route" where
  "exRoute logicalName =
     \<lparr>Matcher = ''/'', Destination = \<lparr>dest_Upstream = Some exRef,
        dest_DestinationSpec = Some \<lparr>DestinationType = Some (DestinationSpec_Gcloud
          \<lparr>ds_LogicalName = logicalName, ResponseTransformation = False\<rparr>)\<rparr>\<rparr>\<rparr>"

definition exEnvoyRoute :: EnvoyRoute where
  "exEnvoyRoute = \<lparr>PerFilterConfig = []\<rparr>"

definition exRecorded :: plugin where
  "exRecorded = \<lparr>recordedUpstreams = Some [(exRef, exGcloud)], ctx = Some 0, transformsAdded = False\<rparr>"

text \<open>
  A call that is not \<open>ProcessUpstream\<close> on an upstream of the reference \<open>ref\<close>: such
  a call leaves the entry of \<open>ref\<close> in the recorded map as it is.
\<close>

fun otherRef :: "ResourceRef \<Rightarrow> call \<Rightarrow> bool" where
  "otherRef ref (CallProcessUpstream params inp out) = (Ref (us_Metadata inp) \<noteq> ref)"
| "otherRef ref c = True"

text \<open>
  What \<open>convertGfuncsToFunctionSpec\<close> makes of one function of the provider: the
  function has an HTTPS trigger, and the spec holds its name and the trigger's URL under
  the empty logical name.
\<close>

definition converted :: "CloudFunction \<Rightarrow> GfuncFunctionSpec \<Rightarrow> bool" where
  "converted g s =
     (case HttpsTrigger g of
        None \<Rightarrow> False
      | Some trigger \<Rightarrow>
          s = \<lparr>LogicalName = [], GfuncFunctionName = cf_Name g, Url = trig_Url trigger\<rparr>)"

text \<open>The plugin after \<open>ProcessUpstream\<close> has recorded the gcloud upstream.\<close>

definition exFailed :: plugin where
  "exFailed = exPlugin\<lparr>recordedUpstreams := Some [(exRef, exGcloud)]\<rparr>"

text \<open>A provider that accepts the key and lists the given pages, and a discovery.\<close>

definition exCloudFunction :: "string \<Rightarrow> string \<Rightarrow> bool \<Rightarrow> CloudFunction" where
  "exCloudFunction name status https =
     \<lparr>cf_Name = name, cf_Status = status,
      HttpsTrigger = (if https then Some \<lparr>trig_Url = ''https://us-east1-proj.cloudfunctions.net/'' @ name\<rparr>
                      else None)\<rparr>"

definition exApi :: "ListFunctionsResponse list \<Rightarrow> GoogleApi" where
  "exApi responses =
     \<lparr>JWTConfigFromJSON = (\<lambda>jsonKey. None), cloudfunctions_New = None,
      Pages = (\<lambda>parent. (responses, None))\<rparr>"

definition exDiscovery :: GcloudGfuncFunctionDiscovery where
  "exDiscovery = \<lparr>timetowait = 10, upstream = exUpstream\<rparr>"

definition exResponses :: "ListFunctionsResponse list" where
  "exResponses =
     [\<lparr>Functions = [exCloudFunction ''a'' ''READY'' True, exCloudFunction ''b'' ''OFFLINE'' True]\<rparr>,
      \<lparr>Functions = [exCloudFunction ''c'' ''ACTIVE'' True, exCloudFunction ''d'' ''READY'' False,
                     exCloudFunction ''e'' ''DEPLOY_IN_PROGRESS'' False]\<rparr>]"

text \<open>The live upstream in storage, with a function list.\<close>

definition exLive :: "GfuncFunctionSpec list \<Rightarrow> Upstream" where
  "exLive fs = \<lparr>us_Metadata = \<lparr>meta_Name = ''gf'', meta_Namespace = ''ns''\<rparr>,
      us_UpstreamSpec = Some \<lparr>UpstreamType = Some (UpstreamSpec_Gcloud
        \<lparr>Region = ''us-east1'', ProjectId = ''proj'',
         SecretRef = \<lparr>ref_Name = ''creds'', ref_Namespace = ''ns''\<rparr>,
         GfuncFunctions = fs\<rparr>)\<rparr>\<rparr>"

subsection \<open>The discovery loop\<close>

text \<open>
  \<open>DetectFunctions\<close> loops over \<open>Backoff\<close>, a reading of \<open>ctx.Err()\<close> and \<open>Sleep\<close>. These
  belong to the context and to package \<open>contextutils\<close> of go-utils, so they are the
  environment of the loop, given by the iteration (counted from 0): \<open>env_Backoff i\<close> is
  what \<open>Backoff\<close> returns in iteration \<open>i\<close>, after it has run the function
  \<open>detectAndUpdate\<close> with the retries and delays of its own; \<open>env_ctxErr i\<close> is what
  \<open>ctx.Err()\<close> returns when the loop reads it after that \<open>Backoff\<close> (a cancelled
  context keeps its error, so the two readings of the source are one); \<open>env_ctxDone i\<close>
  is the error of the context if the context is done before the timer of the sleep of
  iteration \<open>i\<close> fires, and nil otherwise.
\<close>

record LoopEnv =
  env_Backoff :: "nat \<Rightarrow> error option"
  env_ctxErr :: "nat \<Rightarrow> error option"
  env_ctxDone :: "nat \<Rightarrow> error option"

text \<open>\<open>context.Canceled\<close> of the Go standard library is \<open>errors.New("context canceled")\<close>.\<close>

definition context_Canceled :: error where
  "context_Canceled = Errorf ''context canceled'' []"

text \<open>
  \<open>contextutils.Sleep(ctx, amount)\<close> waits for its timer or for \<open>ctx.Done()\<close>, whichever
  comes first, and returns nil after the timer and \<open>ctx.Err()\<close> after the context.
\<close>

definition Sleep :: "LoopEnv \<Rightarrow> nat \<Rightarrow> error option" where
  "Sleep env i = env_ctxDone env i"

text \<open>
  The loop of \<open>DetectFunctions\<close> from iteration \<open>i\<close>, with fuel: \<open>Some err\<close> is the
  error the loop returns, \<open>None\<close> says that the loop is still running after as many
  iterations as there was fuel. The loop has no other exit: an error of \<open>Backoff\<close> is
  dropped unless the context has an error, and then the context's error is returned.
\<close>

fun DetectFunctions :: "LoopEnv \<Rightarrow> nat \<Rightarrow> nat \<Rightarrow> error option" where
  "DetectFunctions env i 0 = None"
| "DetectFunctions env i (Suc fuel) =
     (case (case env_Backoff env i of
              Some err \<Rightarrow> env_ctxErr env i
            | None \<Rightarrow> None) of
        Some ctxerr \<Rightarrow> Some ctxerr
      | None \<Rightarrow>
          (case Sleep env i of
             Some err \<Rightarrow> Some err
           | None \<Rightarrow> DetectFunctions env (Suc i) fuel))"

text \<open>
  Iteration \<open>j\<close> sees no cancellation: the context has no error when the loop reads it
  after a failed \<open>Backoff\<close>, and it is not done during the sleep.
\<close>

definition contextLive :: "LoopEnv \<Rightarrow> nat \<Rightarrow> bool" where
  "contextLive env j \<longleftrightarrow>
     (env_Backoff env j \<noteq> None \<longrightarrow> env_ctxErr env j = None) \<and> env_ctxDone env j = None"

text \<open>
  Two environments. In the first the provider fails in every iteration but the third
  and the context is cancelled during the \<open>Backoff\<close> of the fourth; in the second the
  context is cancelled during the sleep of the second iteration.
\<close>

definition exEnv :: LoopEnv where
  "exEnv = \<lparr>env_Backoff = (\<lambda>i. if i = 2 then None else Some (ProviderError ''unavailable'')),
            env_ctxErr = (\<lambda>i. if 3 \<le> i then Some context_Canceled else None),
            env_ctxDone = (\<lambda>i. None)\<rparr>"

definition exEnvSleep :: LoopEnv where
  "exEnvSleep = \<lparr>env_Backoff = (\<lambda>i. if i = 0 then Some (ProviderError ''unavailable'') else None),
                 env_ctxErr = (\<lambda>i. None),
                 env_ctxDone = (\<lambda>i. if 1 \<le> i then Some context_Canceled else None)\<rparr>"

subsection \<open>Plugins that hold the same map\<close>

text \<open>
  Go fixes no order among the entries of a map, and the association list of the model
  has one. Two plugins hold the same map when both maps are nil or neither is, and
  every reference is bound to the same spec in both, in whatever order the lists hold
  their entries; the context and the flag \<open>transformsAdded\<close> may differ.
\<close>

definition sameRecorded :: "plugin \<Rightarrow> plugin \<Rightarrow> bool" where
  "sameRecorded p q \<longleftrightarrow>
     (recordedUpstreams p = None \<longleftrightarrow> recordedUpstreams q = None)
     \<and> (\<forall>ref. map_lookup (recordedUpstreams p) ref = map_lookup (recordedUpstreams q) ref)"

text \<open>
  Two plugins with the same two upstreams recorded in opposite orders, with different
  contexts and flags, and a sequence of hook calls.
\<close>

definition exOrderAB :: plugin where
  "exOrderAB = \<lparr>recordedUpstreams = Some [(exRef, exGcloud),
                  (\<lparr>ref_Name = ''other'', ref_Namespace = ''ns''\<rparr>, exGcloud\<lparr>GfuncFunctions := []\<rparr>)],
                ctx = Some 0, transformsAdded = False\<rparr>"

definition exOrderBA :: plugin where
  "exOrderBA = \<lparr>recordedUpstreams = Some [
                  (\<lparr>ref_Name = ''other'', ref_Namespace = ''ns''\<rparr>, exGcloud\<lparr>GfuncFunctions := []\<rparr>),
                  (exRef, exGcloud)],
                ctx = Some 7, transformsAdded = True\<rparr>"

definition exCalls :: "call list" where
  "exCalls = [CallProcessUpstream (exParams [exSecret ''key'' ''{}'']) exUpstream exCluster,
              CallProcessUpstream (exParams []) exKubeUpstream exCluster,
              CallProcessRoute (exParams []) (exRoute ''f3'') exEnvoyRoute,
              CallProcessRoute (exParams []) (exRoute ''f2'') exEnvoyRoute,
              CallHttpFilters (exParams []) \<lparr>VirtualHosts = []\<rparr>]"

section \<open>Properties of the plugin\<close>

subsection \<open>\<open>Init\<close>\<close>

text \<open>
  C8. \<open>Init\<close> re-initializes the per-pass state: whatever the plugin recorded before,
  after \<open>Init\<close> the map of recorded upstreams is the empty map, no reference is bound
  in it, and \<open>Init\<close> returns no error.
\<close>

theorem Init_resets_recordedUpstreams:
  "fst (Init p params) = None
   \<and> recordedUpstreams (snd (Init p params)) = Some []
   \<and> (\<forall>ref. map_lookup (recordedUpstreams (snd (Init p params))) ref = None)"
  by (simp add: Init_def map_lookup_def)

subsection \<open>\<open>ProcessUpstream\<close> on an upstream of another provider\<close>

text \<open>
  C2. For an upstream whose type is not the gcloud variant (another variant, or none),
  \<open>ProcessUpstream\<close> returns no error and leaves the cluster and the plugin as they
  were.
\<close>

theorem ProcessUpstream_not_gcloud_noop:
  assumes "us_UpstreamSpec inp = Some spec"
    and "\<forall>gcloud. UpstreamType spec \<noteq> Some (UpstreamSpec_Gcloud gcloud)"
  shows "ProcessUpstream p params inp out = Returns (None, p, out)"
  using assms by (auto simp: ProcessUpstream_def split: option.splits UpstreamType.splits)

text \<open>The kube upstream of the test suite, on a plugin that has recorded an upstream.\<close>

theorem ProcessUpstream_not_gcloud_noop_witness:
  "ProcessUpstream
     \<lparr>recordedUpstreams = Some [(\<lparr>ref_Name = ''gf'', ref_Namespace = ''ns''\<rparr>,
         \<lparr>Region = ''us-east1'', ProjectId = ''proj'',
          SecretRef = \<lparr>ref_Name = ''s'', ref_Namespace = ''ns''\<rparr>, GfuncFunctions = []\<rparr>)],
      ctx = Some 0, transformsAdded = False\<rparr>
     \<lparr>Snapshot = \<lparr>Secrets = []\<rparr>\<rparr>
     \<lparr>us_Metadata = \<lparr>meta_Name = ''up'', meta_Namespace = ''ns''\<rparr>,
      us_UpstreamSpec = Some \<lparr>UpstreamType = Some (UpstreamSpec_Kube
        \<lparr>ServiceName = ''svc'', ServiceNamespace = ''ns'', ServicePort = 80\<rparr>)\<rparr>\<rparr>
     \<lparr>ClusterDiscoveryType = None, DnsLookupFamily = Cluster_AUTO, LoadAssignment = None,
      TlsContext = None, ExtensionProtocolOptions = []\<rparr>
   = Returns (None,
     \<lparr>recordedUpstreams = Some [(\<lparr>ref_Name = ''gf'', ref_Namespace = ''ns''\<rparr>,
         \<lparr>Region = ''us-east1'', ProjectId = ''proj'',
          SecretRef = \<lparr>ref_Name = ''s'', ref_Namespace = ''ns''\<rparr>, GfuncFunctions = []\<rparr>)],
      ctx = Some 0, transformsAdded = False\<rparr>,
     \<lparr>ClusterDiscoveryType = None, DnsLookupFamily = Cluster_AUTO, LoadAssignment = None,
      TlsContext = None, ExtensionProtocolOptions = []\<rparr>)"
  by (rule ProcessUpstream_not_gcloud_noop
        [where spec = "\<lparr>UpstreamType = Some (UpstreamSpec_Kube
           \<lparr>ServiceName = ''svc'', ServiceNamespace = ''ns'', ServicePort = 80\<rparr>)\<rparr>"]) simp_all

subsection \<open>\<open>HttpFilters\<close>\<close>

lemma map_of_empty_iff: "(\<forall>k. map_of al k = None) \<longleftrightarrow> al = []"
  by (cases al) (auto simp: fun_upd_def)

text \<open>
  C7. For every listener \<open>HttpFilters\<close> returns no error and at most one filter: none
  when no upstream is recorded in the plugin, and otherwise exactly the gcloud function
  filter \<open>io.solo.gcloud_gfunc\<close> at the stage \<open>OutAuth\<close>.
\<close>

theorem HttpFilters_zero_or_one:
  "snd (HttpFilters p params listener) = None
   \<and> length (fst (HttpFilters p params listener)) \<le> 1
   \<and> fst (HttpFilters p params listener) =
       (if \<forall>ref. map_lookup (recordedUpstreams p) ref = None then []
        else [\<lparr>hf_Name = ''io.solo.gcloud_gfunc'', hf_Stage = OutAuth\<rparr>])"
  using map_of_empty_iff[of "the (recordedUpstreams p)"]
  by (auto simp: HttpFilters_def len_map_def map_lookup_def NewStagedFilter_def filterName_def
        pluginStage_def split: option.splits)

subsection \<open>Validation of the secret in \<open>ProcessUpstream\<close>\<close>

lemma exFind: "Find [exSecret ak jk] (Strings (SecretRef exGcloud)) = Inr (exSecret ak jk)"
  by (simp add: exSecret_def exGcloud_def Strings_def)

lemma invalid_byte: "\<not> utf8_Valid [CHR 0xFF]"
  by (simp add: utf8_Valid_def)

text \<open>
  C3. When the secret of a gcloud upstream is found and is a gcloud secret whose access
  key is empty or not valid UTF-8 and whose JSON key is empty or not valid UTF-8,
  \<open>ProcessUpstream\<close> returns one multierror that holds both problems, the one of
  \<open>access_key\<close> first and the one of \<open>json_key\<close> second.
\<close>

theorem ProcessUpstream_aggregates_secret_errors:
  assumes "us_UpstreamSpec inp = Some spec"
    and "UpstreamType spec = Some (UpstreamSpec_Gcloud gcloud)"
    and "recordedUpstreams p = Some m"
    and "Find (Secrets (Snapshot params)) (Strings (SecretRef gcloud)) = Inr secrets"
    and "Kind secrets = Some (Secret_Gcloud gcloudSecrets)"
    and "AccessKey gcloudSecrets = [] \<or> \<not> utf8_Valid (AccessKey gcloudSecrets)"
    and "JsonKey gcloudSecrets = [] \<or> \<not> utf8_Valid (JsonKey gcloudSecrets)"
  shows "\<exists>p1 out1. ProcessUpstream p params inp out =
           Returns (Some (MultiError [Errorf ''access_key is not a valid string'' [],
                                      Errorf ''json_key is not a valid string'' []]), p1, out1)"
  using assms by (auto simp: ProcessUpstream_def Let_def)

text \<open>The secret of the spec's example: an empty access key and a JSON key that is the byte \<open>0xFF\<close>.\<close>

theorem ProcessUpstream_aggregates_secret_errors_witness:
  "\<exists>p1 out1. ProcessUpstream exPlugin (exParams [exSecret [] [CHR 0xFF]]) exUpstream exCluster =
           Returns (Some (MultiError [Errorf ''access_key is not a valid string'' [],
                                      Errorf ''json_key is not a valid string'' []]), p1, out1)"
  by (rule ProcessUpstream_aggregates_secret_errors
        [where spec = "\<lparr>UpstreamType = Some (UpstreamSpec_Gcloud exGcloud)\<rparr>"
           and gcloud = exGcloud and m = "[]" and secrets = "exSecret [] [CHR 0xFF]"
           and gcloudSecrets = "\<lparr>AccessKey = [], JsonKey = [CHR 0xFF]\<rparr>"])
     (simp_all add: exUpstream_def exPlugin_def Init_def NewPlugin_def exParams_def exFind invalid_byte,
      simp add: exSecret_def)

subsection \<open>Resolution of the logical name in \<open>ProcessRoute\<close>\<close>

lemma findFunction_find:
  "findFunction fs ln =
     (case find (\<lambda>fn. LogicalName fn = ln) fs of
        None \<Rightarrow> Inl (Errorf ''unknown function %v'' [ArgString ln])
      | Some fn \<Rightarrow> Inr (Some (Msg_GfuncPerRoute \<lparr>pr_Name = GfuncFunctionName fn, pr_Url = Url fn\<rparr>)))"
  by (induction fs) auto

text \<open>
  C1. For a route whose destination spec is the gcloud variant and whose upstream is
  recorded in the plugin, \<open>ProcessRoute\<close> looks for the first function of the recorded
  upstream whose logical name equals the one of the destination. If there is none
  (\<open>find\<close> gives \<open>None\<close>), it returns the error \<open>unknown function\<close> with that logical
  name and changes nothing; if there is one, it returns no error and the route carries,
  under the name of the gcloud filter, the name and the URL of that function. The name
  of the transformation filter is another one than the gcloud filter's.
\<close>

theorem ProcessRoute_resolves_logicalName:
  assumes "dest_DestinationSpec (Destination inp) = Some dspec"
    and "DestinationType dspec = Some (DestinationSpec_Gcloud gd)"
    and "dest_Upstream (Destination inp) = Some ref"
    and "map_lookup (recordedUpstreams p) ref = Some gfuncSpec"
    and "tfn \<noteq> filterName"
  shows "case find (\<lambda>fn. LogicalName fn = ds_LogicalName gd) (GfuncFunctions gfuncSpec) of
           None \<Rightarrow>
             ProcessRoute tfn p params inp out =
               (Some (Errorf ''unknown function %v'' [ArgString (ds_LogicalName gd)]), p, out)
         | Some fn \<Rightarrow>
             (\<exists>p1 out1. ProcessRoute tfn p params inp out = (None, p1, out1)
                \<and> map_of (PerFilterConfig out1) filterName =
                    Some (Msg_GfuncPerRoute \<lparr>pr_Name = GfuncFunctionName fn, pr_Url = Url fn\<rparr>))"
  using assms
  by (auto simp: ProcessRoute_def MarkPerFilterConfig_def gfuncPerFilterConfig_def
        transformPerFilterConfig_def findFunction_find update_Some_unfold
      split: option.splits)

text \<open>
  The spec's example: the functions are \<open>f1\<close> and \<open>f3\<close>; a route to \<open>f2\<close> fails with
  the error that names \<open>f2\<close>, a route to \<open>f3\<close> carries the name and the URL of \<open>f3\<close>.
\<close>

theorem ProcessRoute_resolves_logicalName_witness:
  "ProcessRoute ''io.solo.transformation'' exRecorded (exParams []) (exRoute ''f2'') exEnvoyRoute =
     (Some (Errorf ''unknown function %v'' [ArgString ''f2'']), exRecorded, exEnvoyRoute)
   \<and> (\<exists>p1 out1.
        ProcessRoute ''io.solo.transformation'' exRecorded (exParams []) (exRoute ''f3'') exEnvoyRoute =
          (None, p1, out1)
        \<and> map_of (PerFilterConfig out1) filterName =
            Some (Msg_GfuncPerRoute
              \<lparr>pr_Name = ''projects/proj/locations/us-east1/functions/f3'',
               pr_Url = ''https://us-east1-proj.cloudfunctions.net/f3''\<rparr>))"
  using ProcessRoute_resolves_logicalName
          [of "exRoute ''f2''" "\<lparr>DestinationType = Some (DestinationSpec_Gcloud
                \<lparr>ds_LogicalName = ''f2'', ResponseTransformation = False\<rparr>)\<rparr>"
              "\<lparr>ds_LogicalName = ''f2'', ResponseTransformation = False\<rparr>" exRef exRecorded exGcloud
              "''io.solo.transformation''" "exParams []" exEnvoyRoute]
        ProcessRoute_resolves_logicalName
          [of "exRoute ''f3''" "\<lparr>DestinationType = Some (DestinationSpec_Gcloud
                \<lparr>ds_LogicalName = ''f3'', ResponseTransformation = False\<rparr>)\<rparr>"
              "\<lparr>ds_LogicalName = ''f3'', ResponseTransformation = False\<rparr>" exRef exRecorded exGcloud
              "''io.solo.transformation''" "exParams []" exEnvoyRoute]
  by (simp add: exRoute_def exRecorded_def map_lookup_def exGcloud_def exFunctions_def filterName_def)

subsection \<open>A route to an upstream whose \<open>ProcessUpstream\<close> failed\<close>

lemma ProcessUpstream_records:
  assumes "ProcessUpstream p params inp out = Returns (err, p1, out1)"
    and "us_UpstreamSpec inp = Some spec"
    and "UpstreamType spec = Some (UpstreamSpec_Gcloud gcloud)"
  shows "map_lookup (recordedUpstreams p1) (Ref (us_Metadata inp)) = Some gcloud"
  using assms
  by (auto simp: ProcessUpstream_def Let_def map_lookup_def update_Some_unfold SetExtenstionProtocolOptions_def
      split: option.splits sum.splits SecretKind.splits if_splits)

lemma ProcessUpstream_keeps_others:
  assumes "ProcessUpstream p params inp out = Returns (err, p1, out1)"
    and "Ref (us_Metadata inp) \<noteq> ref"
  shows "map_lookup (recordedUpstreams p1) ref = map_lookup (recordedUpstreams p) ref"
  using assms
  by (auto simp: ProcessUpstream_def Let_def map_lookup_def update_conv' SetExtenstionProtocolOptions_def
      split: option.splits sum.splits SecretKind.splits if_splits UpstreamType.splits)

lemma ProcessRoute_recordedUpstreams:
  "recordedUpstreams (fst (snd (ProcessRoute tfn p params inp out))) = recordedUpstreams p"
  by (auto simp: ProcessRoute_def MarkPerFilterConfig_def gfuncPerFilterConfig_def
        transformPerFilterConfig_def
      split: option.splits sum.splits prod.splits DestinationType.splits)

lemma runHooks_keeps_recorded:
  assumes "list_all (otherRef ref) cs"
  shows "map_lookup (recordedUpstreams (snd (runHooks tfn p cs))) ref = map_lookup (recordedUpstreams p) ref"
  using assms
proof (induction tfn p cs rule: runHooks.induct)
  case (1 tfn p)
  then show ?case by simp
next
  case (2 tfn p params inp out cs)
  show ?case
  proof (cases "ProcessUpstream p params inp out")
    case Panics
    then show ?thesis by simp
  next
    case (Returns r)
    obtain err p1 out1 where r: "r = (err, p1, out1)" by (cases r) auto
    from 2 Returns r have "map_lookup (recordedUpstreams (snd (runHooks tfn p1 cs))) ref
        = map_lookup (recordedUpstreams p1) ref" by simp
    moreover from 2(2) Returns r have "map_lookup (recordedUpstreams p1) ref = map_lookup (recordedUpstreams p) ref"
      by (intro ProcessUpstream_keeps_others[of p params inp out err p1 out1]) auto
    ultimately show ?thesis using Returns r by (cases "runHooks tfn p1 cs") simp
  qed
next
  case (3 tfn p params inp out cs)
  obtain err p1 out1 where r: "ProcessRoute tfn p params inp out = (err, p1, out1)"
    by (cases "ProcessRoute tfn p params inp out") auto
  with ProcessRoute_recordedUpstreams[of tfn p params inp out]
  have "recordedUpstreams p1 = recordedUpstreams p" by simp
  with 3 r show ?case by (cases "runHooks tfn p1 cs") simp
next
  case (4 tfn p params listener cs)
  then show ?case
    by (cases "runHooks tfn p cs"; cases "HttpFilters p params listener") auto
qed

text \<open>
  C10. \<open>ProcessUpstream\<close> records the spec of a gcloud upstream before it looks the
  secret up. So when it returns an error for that upstream, and the hooks that run
  afterwards in the pass do not process another upstream of the same reference, a
  later \<open>ProcessRoute\<close> for a route to that upstream whose logical name is the one of
  a function of the upstream returns no error, and the route carries the name and the
  URL of the first such function.
\<close>

theorem route_resolves_after_failed_ProcessUpstream:
  assumes "ProcessUpstream p params inp out = Returns (Some err, p1, out1)"
    and "us_UpstreamSpec inp = Some spec"
    and "UpstreamType spec = Some (UpstreamSpec_Gcloud gcloud)"
    and "list_all (otherRef (Ref (us_Metadata inp))) cs"
    and "dest_Upstream (Destination r) = Some (Ref (us_Metadata inp))"
    and "dest_DestinationSpec (Destination r) = Some dspec"
    and "DestinationType dspec = Some (DestinationSpec_Gcloud gd)"
    and "find (\<lambda>fn. LogicalName fn = ds_LogicalName gd) (GfuncFunctions gcloud) = Some fn"
    and "tfn \<noteq> filterName"
  shows "\<exists>p2 rout1.
           ProcessRoute tfn (snd (runHooks tfn p1 cs)) rparams r rout = (None, p2, rout1)
           \<and> map_of (PerFilterConfig rout1) filterName =
               Some (Msg_GfuncPerRoute \<lparr>pr_Name = GfuncFunctionName fn, pr_Url = Url fn\<rparr>)"
proof -
  have "map_lookup (recordedUpstreams p1) (Ref (us_Metadata inp)) = Some gcloud"
    using assms(1-3) by (rule ProcessUpstream_records)
  with assms(4) have "map_lookup (recordedUpstreams (snd (runHooks tfn p1 cs))) (Ref (us_Metadata inp)) = Some gcloud"
    by (simp add: runHooks_keeps_recorded)
  with assms(5-9) show ?thesis
    by (auto simp: ProcessRoute_def MarkPerFilterConfig_def gfuncPerFilterConfig_def
          transformPerFilterConfig_def findFunction_find update_Some_unfold
        split: option.splits)
qed

text \<open>
  The secret of the gcloud upstream is missing; a kube upstream and a listener are
  processed next; the route to \<open>f3\<close> is resolved.
\<close>

lemma exUpstream_missing_secret:
  "ProcessUpstream exPlugin (exParams []) exUpstream exCluster =
     Returns (Some (Wrapf (NotFound \<lparr>ref_Name = ''creds'', ref_Namespace = ''ns''\<rparr>)
                      ''retrieving gcloud secret'' []),
              exFailed,
              \<lparr>ClusterDiscoveryType = Some Cluster_LOGICAL_DNS, DnsLookupFamily = Cluster_V4_ONLY,
               LoadAssignment = Some (''us-east1-proj.cloudfunctions.net'', 443),
               TlsContext = Some \<lparr>Sni = ''us-east1-proj.cloudfunctions.net''\<rparr>,
               ExtensionProtocolOptions = []\<rparr>)"
  by (simp add: ProcessUpstream_def exPlugin_def Init_def NewPlugin_def exParams_def exUpstream_def
        exCluster_def exGcloud_def Strings_def Ref_def exRef_def getGfuncHostname_def exFailed_def
        EnvoySingleEndpointLoadAssignment_def Let_def)

theorem route_resolves_after_failed_ProcessUpstream_witness:
  "\<exists>err p1 out1.
     ProcessUpstream exPlugin (exParams []) exUpstream exCluster = Returns (Some err, p1, out1)
     \<and> (\<exists>p2 rout1.
          ProcessRoute ''io.solo.transformation''
            (snd (runHooks ''io.solo.transformation'' p1
                    [CallProcessUpstream (exParams []) exKubeUpstream exCluster,
                     CallHttpFilters (exParams []) \<lparr>VirtualHosts = []\<rparr>]))
            (exParams []) (exRoute ''f3'') exEnvoyRoute = (None, p2, rout1)
          \<and> map_of (PerFilterConfig rout1) filterName =
              Some (Msg_GfuncPerRoute
                \<lparr>pr_Name = ''projects/proj/locations/us-east1/functions/f3'',
                 pr_Url = ''https://us-east1-proj.cloudfunctions.net/f3''\<rparr>))"
proof -
  have other: "list_all (otherRef (Ref (us_Metadata exUpstream)))
                 [CallProcessUpstream (exParams []) exKubeUpstream exCluster,
                  CallHttpFilters (exParams []) \<lparr>VirtualHosts = []\<rparr>]"
    by (simp add: exUpstream_def exKubeUpstream_def Ref_def)
  have found: "find (\<lambda>fn. LogicalName fn = ds_LogicalName
                   \<lparr>ds_LogicalName = ''f3'', ResponseTransformation = False\<rparr>)
                 (GfuncFunctions exGcloud)
               = Some \<lparr>LogicalName = ''f3'',
                       GfuncFunctionName = ''projects/proj/locations/us-east1/functions/f3'',
                       Url = ''https://us-east1-proj.cloudfunctions.net/f3''\<rparr>"
    by (simp add: exGcloud_def exFunctions_def)
  show ?thesis
    using route_resolves_after_failed_ProcessUpstream
            [OF exUpstream_missing_secret _ _ other _ _ _ found,
             where r = "exRoute ''f3''" and tfn = "''io.solo.transformation''"
               and rparams = "exParams []" and rout = exEnvoyRoute
               and spec = "\<lparr>UpstreamType = Some (UpstreamSpec_Gcloud exGcloud)\<rparr>"
               and dspec = "\<lparr>DestinationType = Some (DestinationSpec_Gcloud
                    \<lparr>ds_LogicalName = ''f3'', ResponseTransformation = False\<rparr>)\<rparr>"]
          exUpstream_missing_secret
    by (simp add: exUpstream_def exRoute_def Ref_def exRef_def filterName_def)
qed

section \<open>Determinism of the hooks\<close>

text \<open>
  What a hook hands back depends on the plugin only through the map of recorded
  upstreams, taken as a map: the order of its entries, the context and the flag
  \<open>transformsAdded\<close> are not read. Each hook also leaves plugins that hold the same
  map holding the same map.
\<close>

lemma sameRecorded_update:
  assumes "recordedUpstreams p = Some m" and "recordedUpstreams q = Some n" and "sameRecorded p q"
  shows "sameRecorded (p\<lparr>recordedUpstreams := Some (AList.update k v m)\<rparr>)
                      (q\<lparr>recordedUpstreams := Some (AList.update k v n)\<rparr>)"
  using assms by (simp add: sameRecorded_def map_lookup_def update_conv')

lemma ProcessUpstream_sameRecorded:
  assumes "sameRecorded p q"
  shows "case ProcessUpstream p params inp out of
           Panics \<Rightarrow> ProcessUpstream q params inp out = Panics
         | Returns (err, p1, out1) \<Rightarrow>
             (\<exists>q1. ProcessUpstream q params inp out = Returns (err, q1, out1)
                \<and> sameRecorded p1 q1)"
proof (cases "recordedUpstreams p")
  case None
  with assms have "recordedUpstreams q = None" by (simp add: sameRecorded_def)
  with None assms show ?thesis
    by (auto simp: ProcessUpstream_def split: option.splits UpstreamType.splits)
next
  case (Some m)
  with assms obtain n where n: "recordedUpstreams q = Some n"
    by (auto simp: sameRecorded_def)
  note upd = sameRecorded_update[OF Some n assms]
  show ?thesis
    using Some n assms upd
    by (auto simp: ProcessUpstream_def Let_def SetExtenstionProtocolOptions_def
        split: option.splits sum.splits SecretKind.splits UpstreamType.splits)
qed

lemma gfuncPerFilterConfig_sameRecorded:
  "sameRecorded p q \<Longrightarrow> fst (gfuncPerFilterConfig spec p) = fst (gfuncPerFilterConfig spec q)"
  by (simp add: gfuncPerFilterConfig_def sameRecorded_def split: option.splits DestinationType.splits)

lemma transformPerFilterConfig_same:
  "fst (transformPerFilterConfig spec p) = fst (transformPerFilterConfig spec q)"
  by (simp add: transformPerFilterConfig_def split: option.splits DestinationType.splits)

lemma MarkPerFilterConfig_same:
  assumes "fst (cb (Destination inp) p) = fst (cb (Destination inp) q)"
  shows "fst (MarkPerFilterConfig inp out name cb p) = fst (MarkPerFilterConfig inp out name cb q)"
  using assms
  by (cases "cb (Destination inp) p"; cases "cb (Destination inp) q")
     (auto simp: MarkPerFilterConfig_def split: sum.splits option.splits)

lemma ProcessRoute_sameRecorded:
  assumes "sameRecorded p q"
  shows "fst (ProcessRoute tfn p params inp out) = fst (ProcessRoute tfn q params inp out)
         \<and> snd (snd (ProcessRoute tfn p params inp out)) = snd (snd (ProcessRoute tfn q params inp out))"
proof -
  obtain e1 o1 p1 where m1: "MarkPerFilterConfig inp out filterName gfuncPerFilterConfig p = ((e1, o1), p1)"
    by (metis surj_pair)
  obtain e1' o1' q1 where m1': "MarkPerFilterConfig inp out filterName gfuncPerFilterConfig q = ((e1', o1'), q1)"
    by (metis surj_pair)
  from MarkPerFilterConfig_same[where cb = gfuncPerFilterConfig and inp = inp and out = out
         and name = filterName and p = p and q = q, OF gfuncPerFilterConfig_sameRecorded[OF assms]] m1 m1'
  have eq1: "e1' = e1" "o1' = o1" by simp_all
  obtain e2 o2 p2 where m2: "MarkPerFilterConfig inp o1 tfn transformPerFilterConfig p1 = ((e2, o2), p2)"
    by (metis surj_pair)
  obtain e2' o2' q2 where m2': "MarkPerFilterConfig inp o1 tfn transformPerFilterConfig q1 = ((e2', o2'), q2)"
    by (metis surj_pair)
  from MarkPerFilterConfig_same[where cb = transformPerFilterConfig and inp = inp and out = o1
         and name = tfn and p = p1 and q = q1, OF transformPerFilterConfig_same] m2 m2'
  have eq2: "e2' = e2" "o2' = o2" by simp_all
  show ?thesis
    using m1 m1' eq1 m2 m2' eq2 by (cases e1) (simp_all add: ProcessRoute_def)
qed

lemma ProcessRoute_keeps_sameRecorded:
  assumes "sameRecorded p q"
  shows "sameRecorded (fst (snd (ProcessRoute tfn p params inp out)))
                      (fst (snd (ProcessRoute tfn q params2 inp2 out2)))"
  using assms ProcessRoute_recordedUpstreams[of tfn p params inp out]
        ProcessRoute_recordedUpstreams[of tfn q params2 inp2 out2]
  by (simp add: sameRecorded_def)

lemma HttpFilters_sameRecorded:
  assumes "sameRecorded p q"
  shows "HttpFilters p params listener = HttpFilters q params listener"
proof -
  have "len_map (recordedUpstreams p) = 0 \<longleftrightarrow> len_map (recordedUpstreams q) = 0"
  proof (cases "recordedUpstreams p")
    case None
    with assms show ?thesis by (simp add: sameRecorded_def len_map_def)
  next
    case (Some m)
    with assms obtain n where n: "recordedUpstreams q = Some n" by (auto simp: sameRecorded_def)
    from assms Some n have "\<forall>k. map_of m k = map_of n k" by (simp add: sameRecorded_def map_lookup_def)
    then have "m = [] \<longleftrightarrow> n = []" using map_of_empty_iff[of m] map_of_empty_iff[of n] by simp
    with Some n show ?thesis by (simp add: len_map_def)
  qed
  then show ?thesis by (simp add: HttpFilters_def)
qed

lemma runHooks_sameRecorded:
  "sameRecorded p q \<Longrightarrow>
     fst (runHooks tfn p cs) = fst (runHooks tfn q cs)
     \<and> sameRecorded (snd (runHooks tfn p cs)) (snd (runHooks tfn q cs))"
proof (induction cs arbitrary: p q)
  case Nil
  then show ?case by simp
next
  case (Cons c cs)
  show ?case
  proof (cases c)
    case (CallProcessUpstream params inp out)
    show ?thesis
    proof (cases "ProcessUpstream p params inp out")
      case Panics
      with ProcessUpstream_sameRecorded[OF Cons.prems, of params inp out]
      have "ProcessUpstream q params inp out = Panics" by simp
      with Panics CallProcessUpstream Cons.prems show ?thesis by simp
    next
      case (Returns r)
      obtain err p1 out1 where r: "r = (err, p1, out1)" by (cases r) auto
      with ProcessUpstream_sameRecorded[OF Cons.prems, of params inp out] Returns obtain q1 where
        q1: "ProcessUpstream q params inp out = Returns (err, q1, out1)"
            "sameRecorded p1 q1" by auto
      from Cons.IH[OF q1(2)]
      have "fst (runHooks tfn p1 cs) = fst (runHooks tfn q1 cs)
            \<and> sameRecorded (snd (runHooks tfn p1 cs)) (snd (runHooks tfn q1 cs))" .
      with Returns r q1(1) CallProcessUpstream show ?thesis
        by (cases "runHooks tfn p1 cs"; cases "runHooks tfn q1 cs") simp
    qed
  next
    case (CallProcessRoute params inp out)
    obtain err p1 out1 where rp: "ProcessRoute tfn p params inp out = (err, p1, out1)"
      by (metis surj_pair)
    obtain err' q1 out1' where rq: "ProcessRoute tfn q params inp out = (err', q1, out1')"
      by (metis surj_pair)
    from ProcessRoute_sameRecorded[OF Cons.prems, of tfn params inp out] rp rq
    have eq: "err' = err" "out1' = out1" by simp_all
    from ProcessRoute_keeps_sameRecorded[OF Cons.prems, of tfn params inp out params inp out] rp rq
    have "sameRecorded p1 q1" by simp
    from Cons.IH[OF this]
    have "fst (runHooks tfn p1 cs) = fst (runHooks tfn q1 cs)
          \<and> sameRecorded (snd (runHooks tfn p1 cs)) (snd (runHooks tfn q1 cs))" .
    with rp rq eq CallProcessRoute show ?thesis
      by (cases "runHooks tfn p1 cs"; cases "runHooks tfn q1 cs") simp
  next
    case (CallHttpFilters params listener)
    obtain filters err where h: "HttpFilters p params listener = (filters, err)"
      by (metis surj_pair)
    from Cons.IH[OF Cons.prems]
    have "fst (runHooks tfn p cs) = fst (runHooks tfn q cs)
          \<and> sameRecorded (snd (runHooks tfn p cs)) (snd (runHooks tfn q cs))" .
    with h HttpFilters_sameRecorded[OF Cons.prems, of params listener] CallHttpFilters show ?thesis
      by (cases "runHooks tfn p cs"; cases "runHooks tfn q cs") simp
  qed
qed

text \<open>
  C9. The hooks are deterministic up to what Go leaves open. On two plugins that hold
  the same map of recorded upstreams, in any order of its entries and with any context
  and flag, one sequence of \<open>ProcessUpstream\<close>, \<open>ProcessRoute\<close> and \<open>HttpFilters\<close> calls
  yields the same cluster patches, route patches, staged filters and errors, and leaves
  plugins that hold the same map again, so the order may change between any two calls.
  A pass, that is \<open>Init\<close> followed by such a sequence, yields the same results from
  whatever state and with whatever context it starts, in particular when it runs a
  second time on the plugin that the first run left. The hooks have no input besides
  their arguments and the plugin: the source reads no clock and calls no service in
  them, and the secrets come from the Snapshot among the arguments.
\<close>

theorem hooks_deterministic_up_to_map_order:
  "(sameRecorded p q \<longrightarrow>
      fst (runHooks tfn p cs) = fst (runHooks tfn q cs)
      \<and> sameRecorded (snd (runHooks tfn p cs)) (snd (runHooks tfn q cs)))
   \<and> fst (runPass tfn p ip cs) = fst (runPass tfn q iq cs)
   \<and> fst (runPass tfn (snd (runPass tfn p ip cs)) iq cs) = fst (runPass tfn p ip cs)"
proof -
  have pass: "fst (runPass tfn a ia cs) = fst (runPass tfn b ib cs)" for a b ia ib
    unfolding runPass_def Init_def
    by (simp add: runHooks_sameRecorded[THEN conjunct1] sameRecorded_def)
  show ?thesis using runHooks_sameRecorded[of p q tfn cs] pass by metis
qed

text \<open>
  The two example plugins differ in the order of the map, in the context and in the
  flag; the five calls give the same results on both.
\<close>

lemma exOrders_sameRecorded: "sameRecorded exOrderAB exOrderBA"
  by (auto simp: sameRecorded_def exOrderAB_def exOrderBA_def map_lookup_def exRef_def)

theorem hooks_deterministic_up_to_map_order_witness:
  "recordedUpstreams exOrderAB \<noteq> recordedUpstreams exOrderBA
   \<and> fst (runHooks ''io.solo.transformation'' exOrderAB exCalls)
       = fst (runHooks ''io.solo.transformation'' exOrderBA exCalls)
   \<and> sameRecorded (snd (runHooks ''io.solo.transformation'' exOrderAB exCalls))
                   (snd (runHooks ''io.solo.transformation'' exOrderBA exCalls))"
  using hooks_deterministic_up_to_map_order
          [of exOrderAB exOrderBA "''io.solo.transformation''" exCalls] exOrders_sameRecorded
  by (simp add: exOrderAB_def exOrderBA_def exRef_def)

section \<open>Properties of the function discovery\<close>

subsection \<open>The functions that \<open>DetectFunctionsOnce\<close> keeps\<close>

lemma appendReady_filter:
  "appendReady results rs =
     results @ filter (\<lambda>g. (cf_Status g = statusReady \<or> cf_Status g = statusActive)
                              \<and> HttpsTrigger g \<noteq> None) rs"
  by (induction rs arbitrary: results) auto

lemma listPages_filter:
  "listPages results responses =
     results @ filter (\<lambda>g. (cf_Status g = statusReady \<or> cf_Status g = statusActive)
                              \<and> HttpsTrigger g \<noteq> None) (concat (map Functions responses))"
  by (induction responses arbitrary: results) (auto simp: appendReady_filter)

lemma convertLoop_triggers:
  assumes "\<forall>g \<in> set gs. HttpsTrigger g \<noteq> None"
  shows "\<exists>new. convertLoop acc gs = Returns (acc @ new) \<and> list_all2 converted gs new"
  using assms
proof (induction gs arbitrary: acc)
  case Nil
  then show ?case by simp
next
  case (Cons g gs)
  then obtain trigger where t: "HttpsTrigger g = Some trigger" by auto
  let ?s = "\<lparr>LogicalName = [], GfuncFunctionName = cf_Name g, Url = trig_Url trigger\<rparr>"
  from Cons obtain new where
    "convertLoop (acc @ [?s]) gs = Returns ((acc @ [?s]) @ new)" "list_all2 converted gs new"
    by (metis list.set_intros(2))
  moreover have "converted g ?s" using t by (simp add: converted_def)
  ultimately show ?case using t
    by (intro exI[of _ "?s # new"]) simp
qed

text \<open>
  C5. When the upstream is a gcloud upstream, its secret is found, is a gcloud secret
  and passes the checks, and the provider accepts the key and lists its pages without
  an error, \<open>DetectFunctionsOnce\<close> returns, in the provider's order, one spec for each
  function of the pages whose status is \<open>READY\<close> or \<open>ACTIVE\<close> and that has an HTTPS
  trigger, and no spec for any other function.
\<close>

theorem DetectFunctionsOnce_keeps_ready_https:
  assumes "us_UpstreamSpec (upstream f) = Some spec"
    and "UpstreamType spec = Some (UpstreamSpec_Gcloud gfuncSpec)"
    and "Find secrets (ref_Namespace (SecretRef gfuncSpec), ref_Name (SecretRef gfuncSpec)) = Inr secret"
    and "Kind secret = Some (Secret_Gcloud gcloudSecret)"
    and "AccessKey gcloudSecret = [] \<or> utf8_Valid (AccessKey gcloudSecret)"
    and "JsonKey gcloudSecret = [] \<or> utf8_Valid (JsonKey gcloudSecret)"
    and "JWTConfigFromJSON api (JsonKey gcloudSecret) = None"
    and "cloudfunctions_New api = None"
    and "Pages api (''projects/'' @ ProjectId gfuncSpec @ ''/locations/-'') = (responses, None)"
  shows "\<exists>newfunctions.
           DetectFunctionsOnce api f secrets = Returns (Inr newfunctions)
           \<and> list_all2 converted
               (filter (\<lambda>g. (cf_Status g = ''READY'' \<or> cf_Status g = ''ACTIVE'')
                               \<and> HttpsTrigger g \<noteq> None)
                  (concat (map Functions responses)))
               newfunctions"
proof -
  let ?kept = "filter (\<lambda>g. (cf_Status g = statusReady \<or> cf_Status g = statusActive)
                               \<and> HttpsTrigger g \<noteq> None) (concat (map Functions responses))"
  have "\<forall>g \<in> set ?kept. HttpsTrigger g \<noteq> None" by simp
  from convertLoop_triggers[OF this, of "[]"] obtain new where
    new: "convertLoop [] ?kept = Returns new" "list_all2 converted ?kept new" by auto
  have "DetectFunctionsOnce api f secrets = Returns (Inr new)"
    using assms new(1)
    by (auto simp: DetectFunctionsOnce_def Let_def newGoogleClient_def
          convertGfuncsToFunctionSpec_def listPages_filter)
  with new(2) show ?thesis by (auto simp: statusReady_def statusActive_def)
qed

text \<open>
  Two pages with five functions: \<open>a\<close> (\<open>READY\<close>) and \<open>c\<close> (\<open>ACTIVE\<close>) are kept; \<open>b\<close>
  is offline, \<open>d\<close> and \<open>e\<close> have no HTTPS trigger.
\<close>

lemma exFind2:
  "Find [exSecret ak jk] (ref_Namespace (SecretRef exGcloud), ref_Name (SecretRef exGcloud))
     = Inr (exSecret ak jk)"
  by (simp add: exSecret_def exGcloud_def)

theorem DetectFunctionsOnce_keeps_ready_https_witness:
  "DetectFunctionsOnce (exApi exResponses) exDiscovery [exSecret [] ''{}''] =
     Returns (Inr [\<lparr>LogicalName = [], GfuncFunctionName = ''a'',
                    Url = ''https://us-east1-proj.cloudfunctions.net/a''\<rparr>,
                   \<lparr>LogicalName = [], GfuncFunctionName = ''c'',
                    Url = ''https://us-east1-proj.cloudfunctions.net/c''\<rparr>])"
  using DetectFunctionsOnce_keeps_ready_https
          [of exDiscovery "\<lparr>UpstreamType = Some (UpstreamSpec_Gcloud exGcloud)\<rparr>" exGcloud
              "[exSecret [] ''{}'']" "exSecret [] ''{}''" "\<lparr>AccessKey = [], JsonKey = ''{}''\<rparr>"
              "exApi exResponses" exResponses]
  by (auto simp: exDiscovery_def exUpstream_def exFind2 exApi_def exResponses_def
        exCloudFunction_def list_all2_Cons1 converted_def utf8_Valid_def)
     (simp_all add: exSecret_def exGcloud_def)

subsection \<open>The order of the functions that an iteration writes\<close>

lemma insertLeft_never_less: "\<forall>y \<in> set ys. \<not> lt x y \<Longrightarrow> insertLeft lt x ys = x # ys"
  by (cases ys) auto

lemma foldl_insertLeft_never_less:
  "\<forall>x \<in> set xs \<union> set acc. \<forall>y \<in> set xs \<union> set acc. \<not> lt x y
     \<Longrightarrow> foldl (\<lambda>acc x. insertLeft lt x acc) acc xs = rev xs @ acc"
proof (induction xs arbitrary: acc)
  case Nil
  then show ?case by simp
next
  case (Cons x xs)
  have "insertLeft lt x acc = x # acc"
    using Cons.prems by (intro insertLeft_never_less) auto
  moreover have "foldl (\<lambda>acc x. insertLeft lt x acc) (x # acc) xs = rev xs @ (x # acc)"
    using Cons.prems by (intro Cons.IH) auto
  ultimately show ?case by simp
qed

text \<open>
  On a slice of at most six specs whose logical names are all empty, \<open>sort.Slice\<close>
  changes nothing.
\<close>

lemma sort_Slice_empty_logicalNames:
  assumes "\<forall>s \<in> set xs. LogicalName s = []" and "length xs \<le> 6"
  shows "sort_Slice longer lessLogicalName xs = xs"
  using assms foldl_insertLeft_never_less[of xs "[]" lessLogicalName]
  by (simp add: sort_Slice_def insertionSort_def lessLogicalName_def)

text \<open>With logical names in place the sort does reorder: \<open>b\<close>, \<open>a\<close> becomes \<open>a\<close>, \<open>b\<close>.\<close>

lemma sort_Slice_orders_logicalNames:
  "sort_Slice longer lessLogicalName
     [\<lparr>LogicalName = ''b'', GfuncFunctionName = ''b'', Url = ''u''\<rparr>,
      \<lparr>LogicalName = ''a'', GfuncFunctionName = ''a'', Url = ''v''\<rparr>]
   = [\<lparr>LogicalName = ''a'', GfuncFunctionName = ''a'', Url = ''v''\<rparr>,
      \<lparr>LogicalName = ''b'', GfuncFunctionName = ''b'', Url = ''u''\<rparr>]"
  by (simp add: sort_Slice_def insertionSort_def lessLogicalName_def)

text \<open>
  C4. The claim that the list written back is the ascending permutation by logical
  name of what the provider returned, evaluated on the code: the provider lists \<open>b\<close>
  before \<open>a\<close>, and the iteration stores \<open>b\<close> before \<open>a\<close>; it lists \<open>a\<close> before \<open>b\<close>,
  and the iteration stores \<open>a\<close> before \<open>b\<close>. Every logical name is empty, so the sort
  moves nothing. The slice has two elements, where \<open>sort.Slice\<close> is the insertion sort
  in every release.
\<close>

theorem DetectFunctions_writes_provider_order:
  "detectAndUpdate longer
     (exApi [\<lparr>Functions = [exCloudFunction ''b'' ''READY'' True, exCloudFunction ''a'' ''READY'' True]\<rparr>])
     exDiscovery [exSecret [] ''{}''] applyMutator (Some (exLive []))
   = Returns (None, Some (exLive
       [\<lparr>LogicalName = [], GfuncFunctionName = ''b'',
         Url = ''https://us-east1-proj.cloudfunctions.net/b''\<rparr>,
        \<lparr>LogicalName = [], GfuncFunctionName = ''a'',
         Url = ''https://us-east1-proj.cloudfunctions.net/a''\<rparr>]))
   \<and> detectAndUpdate longer
     (exApi [\<lparr>Functions = [exCloudFunction ''a'' ''READY'' True, exCloudFunction ''b'' ''READY'' True]\<rparr>])
     exDiscovery [exSecret [] ''{}''] applyMutator (Some (exLive []))
   = Returns (None, Some (exLive
       [\<lparr>LogicalName = [], GfuncFunctionName = ''a'',
         Url = ''https://us-east1-proj.cloudfunctions.net/a''\<rparr>,
        \<lparr>LogicalName = [], GfuncFunctionName = ''b'',
         Url = ''https://us-east1-proj.cloudfunctions.net/b''\<rparr>]))"
  by (simp add: detectAndUpdate_def DetectFunctionsOnce_def exDiscovery_def exUpstream_def exFind2
        exSecret_def exGcloud_def exApi_def newGoogleClient_def utf8_Valid_def
        convertGfuncsToFunctionSpec_def exCloudFunction_def statusReady_def statusActive_def
        sort_Slice_def insertionSort_def lessLogicalName_def applyMutator_def updateFunctions_def
        exLive_def)

subsection \<open>The end of the discovery loop\<close>

lemma DetectFunctions_live_step:
  "contextLive env i \<Longrightarrow> DetectFunctions env i (Suc fuel) = DetectFunctions env (Suc i) fuel"
  by (auto simp: contextLive_def Sleep_def split: option.splits)

lemma DetectFunctions_live_prefix:
  "(\<forall>j. i \<le> j \<and> j < i + n \<longrightarrow> contextLive env j) \<Longrightarrow>
     DetectFunctions env i (n + m) = DetectFunctions env (i + n) m"
proof (induction n arbitrary: i)
  case 0
  then show ?case by simp
next
  case (Suc n)
  have "contextLive env i" using Suc.prems by simp
  then have "DetectFunctions env i (Suc n + m) = DetectFunctions env (Suc i) (n + m)"
    using DetectFunctions_live_step[of env i "n + m"] by simp
  also have "\<dots> = DetectFunctions env (Suc i + n) m"
    using Suc.prems by (intro Suc.IH) auto
  finally show ?case by simp
qed

lemma DetectFunctions_returns_context_error:
  "DetectFunctions env i n = Some e \<Longrightarrow>
     \<exists>k. i \<le> k \<and> k < i + n
       \<and> ((env_Backoff env k \<noteq> None \<and> env_ctxErr env k = Some e) \<or> env_ctxDone env k = Some e)"
proof (induction n arbitrary: i)
  case 0
  then show ?case by simp
next
  case (Suc n)
  show ?case
  proof (cases "contextLive env i")
    case True
    with Suc.prems have "DetectFunctions env (Suc i) n = Some e"
      by (simp only: DetectFunctions_live_step)
    from Suc.IH[OF this] obtain k where
      "Suc i \<le> k" "k < Suc i + n"
      "(env_Backoff env k \<noteq> None \<and> env_ctxErr env k = Some e) \<or> env_ctxDone env k = Some e"
      by auto
    then show ?thesis by (intro exI[of _ k]) auto
  next
    case False
    with Suc.prems have
      "(env_Backoff env i \<noteq> None \<and> env_ctxErr env i = Some e) \<or> env_ctxDone env i = Some e"
      by (auto simp: contextLive_def Sleep_def split: option.splits)
    then show ?thesis by (intro exI[of _ i]) auto
  qed
qed

text \<open>
  C6. The loop of \<open>DetectFunctions\<close> ends on cancellation only. Whenever it returns, it
  returns the error of the context, read after a failed \<open>Backoff\<close> or handed back by
  \<open>Sleep\<close>. As long as no iteration before \<open>k\<close> sees a cancellation, the loop is still
  running after \<open>k\<close> iterations, whatever errors \<open>Backoff\<close> returned in them: they are
  dropped and the next iteration starts. If then the context has the error \<open>c\<close> after
  the failed \<open>Backoff\<close> of iteration \<open>k\<close>, or is done with \<open>c\<close> during the sleep of
  iteration \<open>k\<close>, the loop returns \<open>c\<close> in that iteration, for any fuel beyond \<open>k\<close>, and
  not the error of \<open>Backoff\<close>.
\<close>

theorem DetectFunctions_returns_only_on_cancellation:
  "(DetectFunctions env 0 n = Some e \<longrightarrow>
      (\<exists>k<n. (env_Backoff env k \<noteq> None \<and> env_ctxErr env k = Some e) \<or> env_ctxDone env k = Some e))
   \<and> ((\<forall>j<k. contextLive env j) \<longrightarrow>
        DetectFunctions env 0 k = None
        \<and> (env_Backoff env k = Some err \<and> env_ctxErr env k = Some c \<longrightarrow>
             DetectFunctions env 0 (Suc k + m) = Some c)
        \<and> ((env_Backoff env k = None \<or> env_ctxErr env k = None) \<and> env_ctxDone env k = Some c \<longrightarrow>
             DetectFunctions env 0 (Suc k + m) = Some c))"
proof (intro conjI impI)
  assume "DetectFunctions env 0 n = Some e"
  from DetectFunctions_returns_context_error[OF this]
  show "\<exists>k<n. (env_Backoff env k \<noteq> None \<and> env_ctxErr env k = Some e) \<or> env_ctxDone env k = Some e"
    by auto
next
  assume live: "\<forall>j<k. contextLive env j"
  then have pre: "DetectFunctions env 0 (k + x) = DetectFunctions env k x" for x
    using DetectFunctions_live_prefix[of 0 k env x] by simp
  from pre[of 0] show "DetectFunctions env 0 k = None" by simp
  {
    assume "env_Backoff env k = Some err \<and> env_ctxErr env k = Some c"
    then have "DetectFunctions env k (Suc m) = Some c" by simp
    with pre[of "Suc m"] show "DetectFunctions env 0 (Suc k + m) = Some c" by simp
  }
  {
    assume "(env_Backoff env k = None \<or> env_ctxErr env k = None) \<and> env_ctxDone env k = Some c"
    then have "DetectFunctions env k (Suc m) = Some c"
      by (auto simp: Sleep_def split: option.splits)
    with pre[of "Suc m"] show "DetectFunctions env 0 (Suc k + m) = Some c" by simp
  }
qed

text \<open>
  In the first environment the loop is still running after three iterations and
  returns \<open>context.Canceled\<close>, not the provider's error, in the fourth; in the second it
  returns \<open>context.Canceled\<close> from the sleep of the second iteration.
\<close>

lemma exEnv_live: "\<forall>j<3. contextLive exEnv j"
  by (simp add: contextLive_def exEnv_def)

lemma exEnvSleep_live: "\<forall>j<1. contextLive exEnvSleep j"
  by (simp add: contextLive_def exEnvSleep_def)

theorem DetectFunctions_returns_only_on_cancellation_witness:
  "DetectFunctions exEnv 0 3 = None
   \<and> DetectFunctions exEnv 0 (Suc 3 + 5) = Some context_Canceled
   \<and> context_Canceled \<noteq> ProviderError ''unavailable''
   \<and> DetectFunctions exEnvSleep 0 1 = None
   \<and> DetectFunctions exEnvSleep 0 (Suc 1 + 0) = Some context_Canceled"
  using DetectFunctions_returns_only_on_cancellation
          [of exEnv 9 context_Canceled 3 "ProviderError ''unavailable''" context_Canceled 5]
        DetectFunctions_returns_only_on_cancellation
          [of exEnvSleep 2 context_Canceled 1 "ProviderError ''unavailable''" context_Canceled 0]
        exEnv_live exEnvSleep_live
  by (simp add: exEnv_def exEnvSleep_def context_Canceled_def del: DetectFunctions.simps)

end
